theory Spec2Isabelle
  imports Complex_Main "HOL-Library.Sublist"
begin

section \<open>Telethon chat methods: shared vocabulary\<close>

text \<open>
  A shallow embedding of \<^verbatim>\<open>telethon/client/chats.py\<close>: the chat-action controller
  \<^verbatim>\<open>_ChatAction\<close>, the participant iterator \<^verbatim>\<open>_ParticipantsIter\<close>, the admin-log
  iterator \<^verbatim>\<open>_AdminLogIter\<close> and \<^verbatim>\<open>ChatMethods.action\<close>.

  Every exception the module can raise or let through is a value of \<open>error\<close>; a function
  that mutates \<^verbatim>\<open>self\<close> returns its outcome together with the object as the raise or
  return left it.
\<close>

datatype value_error =
    NoSuchAction string
  | MustPassInstance
  | CannotUseAsAction

datatype error =
    ValueError value_error
  | AttributeError
  | KeyError
  | IndexError
  | ZeroDivisionError
  | StopAsyncIteration
  | ConnectionError
  | CancelledError
  | TypeError
  | RPCError nat

datatype 'a outcome = Return 'a | Raise error

subsection \<open>Strings\<close>

text \<open>
  Python's \<^verbatim>\<open>str.lower\<close> on the ASCII letters (the model's characters are bytes), and
  the substring test \<^verbatim>\<open>needle in hay\<close>. \<^verbatim>\<open>str.lower\<close> also folds the letters beyond
  ASCII, which \<open>lower\<close> leaves as they are: the two agree on ASCII strings only.
\<close>

definition ascii_lowercase :: string where
  "ascii_lowercase = ''abcdefghijklmnopqrstuvwxyz''"

definition ascii_uppercase :: string where
  "ascii_uppercase = ''ABCDEFGHIJKLMNOPQRSTUVWXYZ''"

definition lower_char :: "char \<Rightarrow> char" where
  "lower_char c =
     (case map_of (zip ascii_uppercase ascii_lowercase) c of
        Some l \<Rightarrow> l
      | None \<Rightarrow> c)"

definition lower :: "string \<Rightarrow> string" where
  "lower s = map lower_char s"

definition str_in :: "string \<Rightarrow> string \<Rightarrow> bool" where
  "str_in needle hay = sublist needle hay"

subsection \<open>Numbers\<close>

text \<open>
  \<^verbatim>\<open>round(x)\<close> with one argument rounds to the nearest integer, halves to the even
  neighbour. The argument is the quotient \<^verbatim>\<open>current / total\<close> of two integers, taken
  here as the exact rational; Python returns the nearest double, which is the same
  number whenever the quotient is a dyadic fraction of small numerator (as
  \<open>1/4\<close> and \<open>1/2\<close> are). Away from such quotients the two can differ: a quotient
  that is not a half but whose nearest double is one rounds differently, and operands too
  large for a double make the division raise \<^verbatim>\<open>OverflowError\<close>, which has no
  counterpart here.
\<close>

definition py_round :: "rat \<Rightarrow> int" where
  "py_round x =
     (let f = \<lfloor>x\<rfloor>; r = x - of_int f
      in if r < 1 / 2 then f
         else if 1 / 2 < r then f + 1
         else if even f then f else f + 1)"

text \<open>
  \<^verbatim>\<open>RequestIter\<close> keeps \<^verbatim>\<open>limit\<close> and \<^verbatim>\<open>left\<close> as an integer or as
  \<^verbatim>\<open>float('inf')\<close> when no limit was given.
\<close>

datatype bound = Bounded int | Unbounded

fun bound_sub :: "bound \<Rightarrow> int \<Rightarrow> bound" where
  "bound_sub (Bounded n) k = Bounded (n - k)"
| "bound_sub Unbounded k = Unbounded"

fun bound_min :: "bound \<Rightarrow> int \<Rightarrow> int" where
  "bound_min (Bounded n) k = min n k"
| "bound_min Unbounded k = k"

fun bound_le :: "bound \<Rightarrow> int \<Rightarrow> bool" where
  "bound_le (Bounded n) k = (n \<le> k)"
| "bound_le Unbounded k = False"

fun int_gt_bound :: "int \<Rightarrow> bound \<Rightarrow> bool" where
  "int_gt_bound k (Bounded n) = (n < k)"
| "int_gt_bound k Unbounded = False"

definition MAX_PARTICIPANTS_CHUNK_SIZE :: int where
  "MAX_PARTICIPANTS_CHUNK_SIZE = 200"

definition MAX_ADMIN_LOG_CHUNK_SIZE :: int where
  "MAX_ADMIN_LOG_CHUNK_SIZE = 100"

subsection \<open>Peers and activity actions\<close>

datatype InputPeer =
    InputPeerEmpty
  | InputPeerSelf
  | InputPeerChat int
  | InputPeerUser int int
  | InputPeerChannel int int

fun is_InputPeerChannel :: "InputPeer \<Rightarrow> bool" where
  "is_InputPeerChannel (InputPeerChannel c h) = True"
| "is_InputPeerChannel p = False"

text \<open>
  The constructors of the TL type \<^verbatim>\<open>SendMessageAction\<close> that \<^verbatim>\<open>_str_mapping\<close>
  names. The upload actions carry a \<^verbatim>\<open>progress\<close> field; the others have none.
\<close>

datatype SendMessageAction =
    SendMessageTypingAction
  | SendMessageCancelAction
  | SendMessageRecordVideoAction
  | SendMessageUploadVideoAction int
  | SendMessageRecordAudioAction
  | SendMessageUploadAudioAction int
  | SendMessageUploadPhotoAction int
  | SendMessageUploadDocumentAction int
  | SendMessageGeoLocationAction
  | SendMessageChooseContactAction
  | SendMessageGamePlayAction
  | SendMessageRecordRoundAction
  | SendMessageUploadRoundAction int

text \<open>
  Any TL object: an activity action, or an object of another TL type, known here only
  by its \<^verbatim>\<open>SUBCLASS_OF_ID\<close>.
\<close>

datatype TLObject =
    Action SendMessageAction
  | OtherTLObject int

definition SendMessageAction_ID :: int where
  "SendMessageAction_ID = 0x20b2cc21"

fun SUBCLASS_OF_ID :: "TLObject \<Rightarrow> int" where
  "SUBCLASS_OF_ID (Action a) = SendMessageAction_ID"
| "SUBCLASS_OF_ID (OtherTLObject i) = i"

text \<open>\<^verbatim>\<open>hasattr(obj, 'progress')\<close>, reading the field and writing it.\<close>

fun get_progress :: "TLObject \<Rightarrow> int option" where
  "get_progress (Action (SendMessageUploadVideoAction p)) = Some p"
| "get_progress (Action (SendMessageUploadAudioAction p)) = Some p"
| "get_progress (Action (SendMessageUploadPhotoAction p)) = Some p"
| "get_progress (Action (SendMessageUploadDocumentAction p)) = Some p"
| "get_progress (Action (SendMessageUploadRoundAction p)) = Some p"
| "get_progress obj = None"

definition hasattr_progress :: "TLObject \<Rightarrow> bool" where
  "hasattr_progress obj = (get_progress obj \<noteq> None)"

fun set_progress :: "int \<Rightarrow> TLObject \<Rightarrow> TLObject" where
  "set_progress v (Action (SendMessageUploadVideoAction p)) = Action (SendMessageUploadVideoAction v)"
| "set_progress v (Action (SendMessageUploadAudioAction p)) = Action (SendMessageUploadAudioAction v)"
| "set_progress v (Action (SendMessageUploadPhotoAction p)) = Action (SendMessageUploadPhotoAction v)"
| "set_progress v (Action (SendMessageUploadDocumentAction p)) = Action (SendMessageUploadDocumentAction v)"
| "set_progress v (Action (SendMessageUploadRoundAction p)) = Action (SendMessageUploadRoundAction v)"
| "set_progress v obj = obj"

text \<open>
  \<^verbatim>\<open>functions.messages.SetTypingRequest(peer, action)\<close>. Before \<^verbatim>\<open>__aenter__\<close> has
  resolved it the peer is still the caller's reference, so the peer is either.
\<close>

datatype 'e peer_ref = Unresolved 'e | Resolved InputPeer

record 'e SetTypingRequest =
  peer :: "'e peer_ref"
  action_of :: TLObject

section \<open>The chat-action controller\<close>

text \<open>
  The table \<^verbatim>\<open>_ChatAction._str_mapping\<close>, in the order of the source. In the class the
  table holds one instance per tag and \<^verbatim>\<open>action\<close> hands that instance out uncopied,
  so a progress written through one controller is the initial progress of the next
  controller of the same tag. Here the table is a constant and every lookup yields the
  value as the source text constructs it (progress 1 for the upload actions).
\<close>

definition str_mapping :: "(string \<times> SendMessageAction) list" where
  "str_mapping =
     [(''typing'', SendMessageTypingAction),
      (''contact'', SendMessageChooseContactAction),
      (''game'', SendMessageGamePlayAction),
      (''location'', SendMessageGeoLocationAction),
      (''record-audio'', SendMessageRecordAudioAction),
      (''record-voice'', SendMessageRecordAudioAction),
      (''record-round'', SendMessageRecordRoundAction),
      (''record-video'', SendMessageRecordVideoAction),
      (''audio'', SendMessageUploadAudioAction 1),
      (''voice'', SendMessageUploadAudioAction 1),
      (''round'', SendMessageUploadRoundAction 1),
      (''video'', SendMessageUploadVideoAction 1),
      (''photo'', SendMessageUploadPhotoAction 1),
      (''document'', SendMessageUploadDocumentAction 1),
      (''file'', SendMessageUploadDocumentAction 1),
      (''song'', SendMessageUploadDocumentAction 1),
      (''cancel'', SendMessageCancelAction)]"

text \<open>
  The background task running \<^verbatim>\<open>_update\<close>, by where its coroutine stands: created but
  not yet run, suspended at the periodic \<^verbatim>\<open>await self._client(self._request)\<close>,
  suspended at \<^verbatim>\<open>await asyncio.sleep(self._delay)\<close>, suspended at the terminal call of
  the \<^verbatim>\<open>CancelledError\<close> handler, or finished (having returned, or with the
  exception that left it).
\<close>

datatype task =
    NotStarted
  | AwaitCall
  | AwaitSleep
  | AwaitCancelCall
  | Finished "unit outcome"

text \<open>
  \<^verbatim>\<open>_ChatAction\<close>. The request built by \<^verbatim>\<open>__aenter__\<close> holds the very object that
  \<^verbatim>\<open>self._action\<close> names, so a write to the action's field is a write to both
  \<open>self_action\<close> and the action of \<open>self_request\<close>. \<open>sent\<close> is not a field of the
  class: it records, in order, the requests handed to \<^verbatim>\<open>self._client(...)\<close>.
\<close>

record 'e ChatAction =
  self_chat :: "'e peer_ref"
  self_action :: TLObject
  self_delay :: nat
  self_auto_cancel :: bool
  self_request :: "'e SetTypingRequest option"
  self_task :: "task option"
  self_running :: bool
  sent :: "'e SetTypingRequest list"

definition ChatAction_init ::
  "'e \<Rightarrow> TLObject \<Rightarrow> nat \<Rightarrow> bool \<Rightarrow> 'e ChatAction" where
  "ChatAction_init chat act delay auto_cancel =
     \<lparr> self_chat = Unresolved chat, self_action = act, self_delay = delay,
       self_auto_cancel = auto_cancel, self_request = None, self_task = None,
       self_running = False, sent = [] \<rparr>"

text \<open>
  \<^verbatim>\<open>
  def progress(self, current, total):
      if hasattr(self._action, 'progress'):
          self._action.progress = 100 * round(current / total)
  \<close>
\<close>

definition progress ::
  "'e ChatAction \<Rightarrow> int \<Rightarrow> int \<Rightarrow> unit outcome \<times> 'e ChatAction" where
  "progress self current tot =
     (if hasattr_progress (self_action self) then
        (if tot = 0 then (Raise ZeroDivisionError, self)
         else
           let a = set_progress (100 * py_round (of_int current / of_int tot))
                     (self_action self)
           in (Return (),
               self\<lparr> self_action := a,
                     self_request :=
                       map_option (\<lambda>r. r\<lparr> action_of := a \<rparr>) (self_request self) \<rparr>))
      else (Return (), self))"

text \<open>
  The argument \<^verbatim>\<open>action\<close> of \<^verbatim>\<open>ChatMethods.action\<close> is untyped: a string, an
  instance of a TL class, a class, or anything else.
\<close>

datatype action_arg =
    PyStr string
  | PyInstance TLObject
  | PyClass
  | PyOther

text \<open>
  What \<^verbatim>\<open>ChatMethods.action\<close> returns: the awaitable of a single
  \<^verbatim>\<open>SetTypingRequest\<close> (nothing is sent until the caller awaits it), or a controller.
\<close>

datatype 'e action_result =
    Awaitable "'e SetTypingRequest"
  | Controller "'e ChatAction"

text \<open>
  \<^verbatim>\<open>
  def action(self, entity, action, *, delay=4, auto_cancel=True):
      if isinstance(action, str):
          try:
              action = _ChatAction._str_mapping[action.lower()]
          except KeyError:
              raise ValueError('No such action "{}"'.format(action)) from None
      elif not isinstance(action, types.TLObject) or action.SUBCLASS_OF_ID != 0x20b2cc21:
          if isinstance(action, type):
              raise ValueError('You must pass an instance, not the class')
          else:
              raise ValueError('Cannot use {} as action'.format(action))

      if isinstance(action, types.SendMessageCancelAction):
          return self(functions.messages.SetTypingRequest(
              entity, types.SendMessageCancelAction()))

      return _ChatAction(
          self, entity, action, delay=delay, auto_cancel=auto_cancel)
  \<close>
  The first function is the resolution of the argument, the second the whole method.
\<close>

fun resolve_action :: "action_arg \<Rightarrow> error + TLObject" where
  "resolve_action (PyStr s) =
     (case map_of str_mapping (lower s) of
        Some a \<Rightarrow> Inr (Action a)
      | None \<Rightarrow> Inl (ValueError (NoSuchAction s)))"
| "resolve_action (PyInstance obj) =
     (if SUBCLASS_OF_ID obj \<noteq> SendMessageAction_ID
      then Inl (ValueError CannotUseAsAction)
      else Inr obj)"
| "resolve_action PyClass = Inl (ValueError MustPassInstance)"
| "resolve_action PyOther = Inl (ValueError CannotUseAsAction)"

definition action ::
  "'e \<Rightarrow> action_arg \<Rightarrow> nat \<Rightarrow> bool \<Rightarrow> error + 'e action_result" where
  "action entity act delay auto_cancel =
     (case resolve_action act of
        Inl e \<Rightarrow> Inl e
      | Inr a \<Rightarrow>
          if a = Action SendMessageCancelAction
          then Inr (Awaitable \<lparr> peer = Unresolved entity,
                                action_of = Action SendMessageCancelAction \<rparr>)
          else Inr (Controller (ChatAction_init entity a delay auto_cancel)))"

text \<open>
  \<^verbatim>\<open>
  async def __aenter__(self):
      self._chat = await self._client.get_input_entity(self._chat)
      self._request = functions.messages.SetTypingRequest(
          self._chat, self._action)
      self._running = True
      self._task = self._client.loop.create_task(self._update())
  \<close>
  \<open>get_input_entity\<close> is the client's resolver, which may raise.
\<close>

definition aenter ::
  "('e peer_ref \<Rightarrow> error + InputPeer) \<Rightarrow> 'e ChatAction \<Rightarrow> unit outcome \<times> 'e ChatAction" where
  "aenter get_input_entity self =
     (case get_input_entity (self_chat self) of
        Inl e \<Rightarrow> (Raise e, self)
      | Inr p \<Rightarrow>
          (Return (),
           self\<lparr> self_chat := Resolved p,
                 self_request := Some \<lparr> peer = Resolved p, action_of = self_action self \<rparr>,
                 self_running := True,
                 self_task := Some NotStarted \<rparr>))"

text \<open>
  \<^verbatim>\<open>
  async def _update(self):
      try:
          while self._running:
              await self._client(self._request)
              await asyncio.sleep(self._delay)
      except ConnectionError:
          pass
      except asyncio.CancelledError:
          if self._auto_cancel:
              await self._client(functions.messages.SetTypingRequest(
                  self._chat, types.SendMessageCancelAction()))
  \<close>
  The coroutine runs between two suspensions at a time. \<open>loop_head\<close> is the test of
  the \<^verbatim>\<open>while\<close> and, when it holds, the hand-over of \<^verbatim>\<open>self._request\<close> to the
  client. \<open>update_resume r\<close> is the event loop resuming the task with the result \<open>r\<close> of
  what it was awaiting (\<open>None\<close>: it completed; \<open>Some e\<close>: it raised \<open>e\<close>).
  \<open>update_throw_cancelled\<close> is the event loop raising \<^verbatim>\<open>CancelledError\<close> inside the
  coroutine where it stands, which is what a task does after \<^verbatim>\<open>Task.cancel()\<close>: a
  coroutine that has not run yet is closed without entering its \<^verbatim>\<open>try\<close>, a finished
  one is left alone.
\<close>

definition loop_head :: "'e ChatAction \<Rightarrow> task \<times> 'e ChatAction" where
  "loop_head self =
     (if self_running self then
        (case self_request self of
           Some r \<Rightarrow> (AwaitCall, self\<lparr> sent := sent self @ [r] \<rparr>)
         | None \<Rightarrow> (Finished (Raise TypeError), self))
      else (Finished (Return ()), self))"

definition cancel_request :: "'e ChatAction \<Rightarrow> 'e SetTypingRequest" where
  "cancel_request self =
     \<lparr> peer = self_chat self, action_of = Action SendMessageCancelAction \<rparr>"

definition cancelled_handler :: "'e ChatAction \<Rightarrow> task \<times> 'e ChatAction" where
  "cancelled_handler self =
     (if self_auto_cancel self then
        (AwaitCancelCall, self\<lparr> sent := sent self @ [cancel_request self] \<rparr>)
      else (Finished (Return ()), self))"

fun update_resume :: "error option \<Rightarrow> task \<Rightarrow> 'e ChatAction \<Rightarrow> task \<times> 'e ChatAction" where
  "update_resume r NotStarted self = loop_head self"
| "update_resume None AwaitCall self = (AwaitSleep, self)"
| "update_resume (Some e) AwaitCall self =
     (if e = ConnectionError then (Finished (Return ()), self)
      else if e = CancelledError then cancelled_handler self
      else (Finished (Raise e), self))"
| "update_resume None AwaitSleep self = loop_head self"
| "update_resume (Some e) AwaitSleep self =
     (if e = ConnectionError then (Finished (Return ()), self)
      else if e = CancelledError then cancelled_handler self
      else (Finished (Raise e), self))"
| "update_resume None AwaitCancelCall self = (Finished (Return ()), self)"
| "update_resume (Some e) AwaitCancelCall self = (Finished (Raise e), self)"
| "update_resume r (Finished res) self = (Finished res, self)"


text \<open>
  The event loop steps the task of a controller whose scope is open: the task is
  resumed with \<open>r\<close>, and the controller keeps the task as the step left it.
\<close>

definition run_task :: "error option \<Rightarrow> 'e ChatAction \<Rightarrow> 'e ChatAction" where
  "run_task r self =
     (case self_task self of
        None \<Rightarrow> self
      | Some t \<Rightarrow>
          (case update_resume r t self of
             (t', self') \<Rightarrow> self'\<lparr> self_task := Some t' \<rparr>))"



section \<open>The participants iterator\<close>

subsection \<open>Data\<close>

text \<open>
  An attribute read with \<^verbatim>\<open>getattr(obj, name, default)\<close>: the object may lack it, hold
  \<^verbatim>\<open>None\<close>, or hold a string.
\<close>

datatype str_attr = Missing | PyNone | Str string

text \<open>
  A participant entry (\<^verbatim>\<open>ChannelParticipant\<close> or \<^verbatim>\<open>ChatParticipant\<close>; the code reads
  only \<^verbatim>\<open>user_id\<close>) and a user. \<open>participant\<close> is the attribute the iterator attaches.
\<close>

record Participant =
  user_id :: int
  rank :: nat

record User =
  u_id :: int
  first_name :: str_attr
  last_name :: str_attr
  username :: str_attr
  participant :: "Participant option"

datatype ChannelParticipantsFilter =
    ChannelParticipantsRecent
  | ChannelParticipantsAdmins
  | ChannelParticipantsKicked string
  | ChannelParticipantsBots
  | ChannelParticipantsBanned string
  | ChannelParticipantsSearch string
  | ChannelParticipantsContacts string

text \<open>The filter classes themselves, which a caller may pass instead of an instance.\<close>

datatype filter_class =
    RecentClass
  | AdminsClass
  | KickedClass
  | BotsClass
  | BannedClass
  | SearchClass
  | ContactsClass

datatype filter_arg =
    NoFilter
  | FilterClass filter_class
  | FilterInstance ChannelParticipantsFilter

record GetParticipantsRequest =
  req_channel :: InputPeer
  req_filter :: ChannelParticipantsFilter
  req_offset :: int
  req_limit :: int
  req_hash :: int

text \<open>The replies: \<^verbatim>\<open>channels.ChannelParticipants\<close> and \<^verbatim>\<open>messages.ChatFull\<close>.\<close>

record ChannelParticipants =
  cp_count :: int
  cp_participants :: "Participant list"
  cp_users :: "User list"

datatype chat_participants =
    ChatParticipants "Participant list"
  | ChatParticipantsForbidden

record ChatFull =
  full_participants :: chat_participants
  full_users :: "User list"

text \<open>What the iterator asks of the client, in the order asked.\<close>

datatype remote_call =
    GetFullChannelRequest InputPeer
  | GetFullChatRequest int
  | GetEntity InputPeer
  | GetParticipantsRequests "GetParticipantsRequest list"

text \<open>
  The client as the iterator uses it: its resolver and its replies to each request.
  \<^verbatim>\<open>utils.get_display_name\<close>, the other collaborator, is a fixed function of the
  entity and is passed to the functions below as \<open>gdn\<close>.
\<close>

record 'e client =
  get_input_entity :: "'e peer_ref \<Rightarrow> error + InputPeer"

record 'e env = "'e client" +
  full_channel :: "InputPeer \<Rightarrow> error + int option"
  full_chat :: "int \<Rightarrow> error + ChatFull"
  get_entity :: "InputPeer \<Rightarrow> error + User"
  get_participants :: "GetParticipantsRequest list \<Rightarrow> error + ChannelParticipants list"

text \<open>
  The two lambdas \<^verbatim>\<open>_init\<close> may store in \<^verbatim>\<open>self.filter_entity\<close>: the local match
  on a lower-cased search string, and \<^verbatim>\<open>lambda ent: True\<close>.
\<close>

datatype filter_entity_fn = MatchSearch string | MatchAll

text \<open>
  The fields of \<^verbatim>\<open>RequestIter\<close> the two iterators use. \<open>calls\<close> is not a field of the
  class: it records, in order, what was handed to \<^verbatim>\<open>self.client(...)\<close>.
\<close>

record ('a, 'c) RequestIter =
  limit :: bound
  left :: bound
  buffer :: "'a list"
  total_count :: "int option"
  calls :: "'c list"

record ParticipantsIter = "(User, remote_call) RequestIter" +
  filter_entity :: filter_entity_fn
  requests :: "GetParticipantsRequest list"
  seen :: "int set"

subsection \<open>The local match\<close>

text \<open>
  \<^verbatim>\<open>
  self.filter_entity = lambda ent: (
      search in utils.get_display_name(ent).lower() or
      search in (getattr(ent, 'username', '') or None).lower()
  )
  \<close>
  \<open>username_or_None\<close> is \<^verbatim>\<open>getattr(ent, 'username', '') or None\<close>: a missing attribute
  reads as the empty string, and the empty string and \<^verbatim>\<open>None\<close> are both falsy, so all
  three give \<^verbatim>\<open>None\<close>, on which \<^verbatim>\<open>.lower()\<close> raises \<^verbatim>\<open>AttributeError\<close>.
\<close>

fun username_or_None :: "User \<Rightarrow> string option" where
  "username_or_None ent =
     (case username ent of
        Missing \<Rightarrow> None
      | PyNone \<Rightarrow> None
      | Str s \<Rightarrow> (if s = [] then None else Some s))"

fun apply_filter_entity :: "(User \<Rightarrow> string) \<Rightarrow> filter_entity_fn \<Rightarrow> User \<Rightarrow> bool outcome" where
  "apply_filter_entity gdn MatchAll ent = Return True"
| "apply_filter_entity gdn (MatchSearch search) ent =
     (if str_in search (lower (gdn ent)) then Return True
      else (case username_or_None ent of
              None \<Rightarrow> Raise AttributeError
            | Some h \<Rightarrow> Return (str_in search (lower h))))"

subsection \<open>Initialisation\<close>

text \<open>
  \<^verbatim>\<open>
  if isinstance(filter, type):
      if filter in (types.ChannelParticipantsBanned,
                    types.ChannelParticipantsKicked,
                    types.ChannelParticipantsSearch,
                    types.ChannelParticipantsContacts):
          filter = filter('')
      else:
          filter = filter()
  \<close>
  A filter instance is always truthy; only \<^verbatim>\<open>None\<close> is not.
\<close>

fun instantiate :: "filter_class \<Rightarrow> ChannelParticipantsFilter" where
  "instantiate BannedClass = ChannelParticipantsBanned []"
| "instantiate KickedClass = ChannelParticipantsKicked []"
| "instantiate SearchClass = ChannelParticipantsSearch []"
| "instantiate ContactsClass = ChannelParticipantsContacts []"
| "instantiate RecentClass = ChannelParticipantsRecent"
| "instantiate AdminsClass = ChannelParticipantsAdmins"
| "instantiate BotsClass = ChannelParticipantsBots"

fun resolve_filter :: "filter_arg \<Rightarrow> ChannelParticipantsFilter option" where
  "resolve_filter NoFilter = None"
| "resolve_filter (FilterClass c) = Some (instantiate c)"
| "resolve_filter (FilterInstance f) = Some f"

text \<open>\<^verbatim>\<open>{user.id: user for user in users}\<close>: the last user of an id wins.\<close>

definition dict_of_users :: "User list \<Rightarrow> (int \<rightharpoonup> User)" where
  "dict_of_users us = map_of (rev (map (\<lambda>u. (u_id u, u)) us))"

definition new_request :: "InputPeer \<Rightarrow> ChannelParticipantsFilter \<Rightarrow> GetParticipantsRequest" where
  "new_request entity f =
     \<lparr> req_channel = entity, req_filter = f, req_offset = 0,
       req_limit = MAX_PARTICIPANTS_CHUNK_SIZE, req_hash = 0 \<rparr>"

text \<open>
  The branch of \<^verbatim>\<open>_init\<close> for an \<^verbatim>\<open>InputPeerChannel\<close>:
  \<^verbatim>\<open>
  self.total = (await self.client(
      functions.channels.GetFullChannelRequest(entity)
  )).full_chat.participants_count

  if self.limit <= 0:
      raise StopAsyncIteration

  self.seen = set()
  if aggressive and not filter:
      self.requests.extend(functions.channels.GetParticipantsRequest(
          channel=entity,
          filter=types.ChannelParticipantsSearch(x),
          offset=0,
          limit=_MAX_PARTICIPANTS_CHUNK_SIZE,
          hash=0
      ) for x in (search or string.ascii_lowercase))
  else:
      self.requests.append(functions.channels.GetParticipantsRequest(
          channel=entity,
          filter=filter or types.ChannelParticipantsSearch(search),
          offset=0,
          limit=_MAX_PARTICIPANTS_CHUNK_SIZE,
          hash=0
      ))
  \<close>
  The branch falls off its end, so \<^verbatim>\<open>_init\<close> returns \<^verbatim>\<open>None\<close>, which the caller
  reads as false.
\<close>

definition init_channel ::
  "'e env \<Rightarrow> ParticipantsIter \<Rightarrow> InputPeer \<Rightarrow> ChannelParticipantsFilter option \<Rightarrow> string \<Rightarrow> bool
     \<Rightarrow> bool outcome \<times> ParticipantsIter" where
  "init_channel env self entity flt search aggressive =
     (let self1 = self\<lparr> calls := calls self @ [GetFullChannelRequest entity] \<rparr>
      in case full_channel env entity of
           Inl e \<Rightarrow> (Raise e, self1)
         | Inr cnt \<Rightarrow>
             let self2 = self1\<lparr> total_count := cnt \<rparr>
             in if bound_le (limit self2) 0 then (Raise StopAsyncIteration, self2)
                else
                  let self3 = self2\<lparr> seen := {} \<rparr>
                  in if aggressive \<and> flt = None then
                       (Return False,
                        self3\<lparr> requests := requests self3 @
                                 map (\<lambda>x. new_request entity (ChannelParticipantsSearch [x]))
                                   (if search \<noteq> [] then search else ascii_lowercase) \<rparr>)
                     else
                       (Return False,
                        self3\<lparr> requests := requests self3 @
                                 [new_request entity
                                    (case flt of
                                       Some f \<Rightarrow> f
                                     | None \<Rightarrow> ChannelParticipantsSearch search)] \<rparr>))"

text \<open>
  The branch for an \<^verbatim>\<open>InputPeerChat\<close>:
  \<^verbatim>\<open>
  users = {user.id: user for user in full.users}
  for participant in full.full_chat.participants.participants:
      user = users[participant.user_id]
      if not self.filter_entity(user):
          continue

      user = users[participant.user_id]
      user.participant = participant
      self.buffer.append(user)
  \<close>
  The dictionary holds one object per id, and the buffer holds those objects, so the
  assignment to \<^verbatim>\<open>user.participant\<close> shows in the dictionary and in every place of the
  buffer where the same user already stands.
\<close>

fun chat_loop ::
  "(User \<Rightarrow> string) \<Rightarrow> (int \<rightharpoonup> User) \<Rightarrow> Participant list \<Rightarrow> ParticipantsIter
     \<Rightarrow> unit outcome \<times> ParticipantsIter" where
  "chat_loop gdn users [] self = (Return (), self)"
| "chat_loop gdn users (p # ps) self =
     (case users (user_id p) of
        None \<Rightarrow> (Raise KeyError, self)
      | Some user \<Rightarrow>
          (case apply_filter_entity gdn (filter_entity self) user of
             Raise e \<Rightarrow> (Raise e, self)
           | Return ok \<Rightarrow>
               if \<not> ok then chat_loop gdn users ps self
               else
                 let user' = user\<lparr> participant := Some p \<rparr>
                 in chat_loop gdn (users(user_id p \<mapsto> user')) ps
                      (self\<lparr> buffer :=
                               map (\<lambda>u. if u_id u = u_id user' then user' else u) (buffer self)
                               @ [user'] \<rparr>)))"

definition init_chat ::
  "(User \<Rightarrow> string) \<Rightarrow> 'e env \<Rightarrow> ParticipantsIter \<Rightarrow> int
     \<Rightarrow> bool outcome \<times> ParticipantsIter" where
  "init_chat gdn env self chat_id =
     (let self1 = self\<lparr> calls := calls self @ [GetFullChatRequest chat_id] \<rparr>
      in case full_chat env chat_id of
           Inl e \<Rightarrow> (Raise e, self1)
         | Inr full \<Rightarrow>
             (case full_participants full of
                ChatParticipantsForbidden \<Rightarrow>
                  (Raise StopAsyncIteration, self1\<lparr> total_count := Some 0 \<rparr>)
              | ChatParticipants ps \<Rightarrow>
                  (case chat_loop gdn (dict_of_users (full_users full)) ps
                          (self1\<lparr> total_count := Some (int (length ps)) \<rparr>) of
                     (Raise e, self2) \<Rightarrow> (Raise e, self2)
                   | (Return u, self2) \<Rightarrow> (Return True, self2))))"

text \<open>
  The last branch, for any other peer:
  \<^verbatim>\<open>
  self.total = 1
  if self.limit != 0:
      user = await self.client.get_entity(entity)
      if self.filter_entity(user):
          user.participant = None
          self.buffer.append(user)

  return True
  \<close>
\<close>

definition init_single ::
  "(User \<Rightarrow> string) \<Rightarrow> 'e env \<Rightarrow> ParticipantsIter \<Rightarrow> InputPeer
     \<Rightarrow> bool outcome \<times> ParticipantsIter" where
  "init_single gdn env self entity =
     (let self1 = self\<lparr> total_count := Some 1 \<rparr>
      in if limit self1 \<noteq> Bounded 0 then
           (let self2 = self1\<lparr> calls := calls self1 @ [GetEntity entity] \<rparr>
            in case get_entity env entity of
                 Inl e \<Rightarrow> (Raise e, self2)
               | Inr user \<Rightarrow>
                   (case apply_filter_entity gdn (filter_entity self2) user of
                      Raise e \<Rightarrow> (Raise e, self2)
                    | Return ok \<Rightarrow>
                        if ok
                        then (Return True,
                              self2\<lparr> buffer := buffer self2 @ [user\<lparr> participant := None \<rparr>] \<rparr>)
                        else (Return True, self2)))
         else (Return True, self1))"

text \<open>
  \<^verbatim>\<open>_ParticipantsIter._init(self, entity, filter, search, aggressive)\<close>:
  \<^verbatim>\<open>
  entity = await self.client.get_input_entity(entity)
  if search and (filter
                 or not isinstance(entity, types.InputPeerChannel)):
      # We need to 'search' ourselves unless we have a PeerChannel
      search = search.lower()

      self.filter_entity = lambda ent: (...)
  else:
      self.filter_entity = lambda ent: True

  # Only used for channels, but we should always set the attribute
  self.requests = []

  if isinstance(entity, types.InputPeerChannel):
      ...
  elif isinstance(entity, types.InputPeerChat):
      ...
  else:
      ...
  \<close>
\<close>

definition ParticipantsIter_init ::
  "(User \<Rightarrow> string) \<Rightarrow> 'e env \<Rightarrow> ParticipantsIter \<Rightarrow> 'e \<Rightarrow> filter_arg \<Rightarrow> string \<Rightarrow> bool
     \<Rightarrow> bool outcome \<times> ParticipantsIter" where
  "ParticipantsIter_init gdn env self entity filter_x search aggressive =
     (let flt = resolve_filter filter_x
      in case get_input_entity env (Unresolved entity) of
           Inl e \<Rightarrow> (Raise e, self)
         | Inr ent \<Rightarrow>
             let local = (search \<noteq> [] \<and> (flt \<noteq> None \<or> \<not> is_InputPeerChannel ent));
                 search1 = (if local then lower search else search);
                 self1 = self\<lparr> filter_entity := (if local then MatchSearch search1 else MatchAll),
                                requests := [] \<rparr>
             in case ent of
                  InputPeerChannel c h \<Rightarrow> init_channel env self1 ent flt search1 aggressive
                | InputPeerChat chat_id \<Rightarrow> init_chat gdn env self1 chat_id
                | _ \<Rightarrow> init_single gdn env self1 ent)"

subsection \<open>Loading a chunk\<close>

text \<open>
  The inner loop of \<^verbatim>\<open>_load_next_chunk\<close>, over the participants of one reply:
  \<^verbatim>\<open>
  for participant in participants.participants:
      user = users[participant.user_id]
      if not self.filter_entity(user) or user.id in self.seen:
          continue

      self.seen.add(participant.user_id)
      user = users[participant.user_id]
      user.participant = participant
      self.buffer.append(user)
  \<close>
\<close>

fun participants_loop ::
  "(User \<Rightarrow> string) \<Rightarrow> (int \<rightharpoonup> User) \<Rightarrow> Participant list \<Rightarrow> ParticipantsIter
     \<Rightarrow> unit outcome \<times> ParticipantsIter" where
  "participants_loop gdn users [] self = (Return (), self)"
| "participants_loop gdn users (p # ps) self =
     (case users (user_id p) of
        None \<Rightarrow> (Raise KeyError, self)
      | Some user \<Rightarrow>
          (case apply_filter_entity gdn (filter_entity self) user of
             Raise e \<Rightarrow> (Raise e, self)
           | Return ok \<Rightarrow>
               if \<not> ok \<or> u_id user \<in> seen self then participants_loop gdn users ps self
               else
                 let user' = user\<lparr> participant := Some p \<rparr>
                 in participants_loop gdn (users(user_id p \<mapsto> user')) ps
                      (self\<lparr> seen := insert (user_id p) (seen self),
                             buffer := buffer self @ [user'] \<rparr>)))"

text \<open>
  The outer loop, over the indices of \<^verbatim>\<open>self.requests\<close> from the last to the first:
  \<^verbatim>\<open>
  for i in reversed(range(len(self.requests))):
      participants = results[i]
      if not participants.users:
          self.requests.pop(i)
          continue

      self.requests[i].offset += len(participants.participants)
      users = {user.id: user for user in participants.users}
      for participant in participants.participants:
          ...
  \<close>
\<close>

fun results_loop ::
  "(User \<Rightarrow> string) \<Rightarrow> ChannelParticipants list \<Rightarrow> nat list \<Rightarrow> ParticipantsIter
     \<Rightarrow> unit outcome \<times> ParticipantsIter" where
  "results_loop gdn results [] self = (Return (), self)"
| "results_loop gdn results (i # is) self =
     (if length results \<le> i \<or> length (requests self) \<le> i then (Raise IndexError, self)
      else
        let participants = results ! i
        in if cp_users participants = [] then
             results_loop gdn results is
               (self\<lparr> requests := take i (requests self) @ drop (Suc i) (requests self) \<rparr>)
           else
             let r = requests self ! i;
                 self1 = self\<lparr> requests := (requests self)
                           [i := r\<lparr> req_offset :=
                                      req_offset r + int (length (cp_participants participants)) \<rparr>] \<rparr>
             in case participants_loop gdn (dict_of_users (cp_users participants))
                       (cp_participants participants) self1 of
                  (Raise e, self2) \<Rightarrow> (Raise e, self2)
                | (Return u, self2) \<Rightarrow> results_loop gdn results is self2)"

text \<open>
  \<^verbatim>\<open>
  async def _load_next_chunk(self):
      if not self.requests:
          return True

      self.requests[0].limit = min(
          self.limit - self.requests[0].offset, _MAX_PARTICIPANTS_CHUNK_SIZE)

      if self.requests[0].offset > self.limit:
          return True

      results = await self.client(self.requests)
      for i in reversed(range(len(self.requests))):
          ...
  \<close>
\<close>

definition ParticipantsIter_load_next_chunk ::
  "(User \<Rightarrow> string) \<Rightarrow> 'e env \<Rightarrow> ParticipantsIter \<Rightarrow> bool outcome \<times> ParticipantsIter" where
  "ParticipantsIter_load_next_chunk gdn env self =
     (case requests self of
        [] \<Rightarrow> (Return True, self)
      | r0 # rest \<Rightarrow>
          let self1 = self\<lparr> requests :=
                        r0\<lparr> req_limit := bound_min (bound_sub (limit self) (req_offset r0))
                                            MAX_PARTICIPANTS_CHUNK_SIZE \<rparr> # rest \<rparr>
          in if int_gt_bound (req_offset r0) (limit self1) then (Return True, self1)
             else
               let self2 = self1\<lparr> calls := calls self1 @ [GetParticipantsRequests (requests self1)] \<rparr>
               in case get_participants env (requests self1) of
                    Inl e \<Rightarrow> (Raise e, self2)
                  | Inr results \<Rightarrow>
                      (case results_loop gdn results
                              (rev [0..<length (requests self2)]) self2 of
                         (Raise e, self3) \<Rightarrow> (Raise e, self3)
                       | (Return u, self3) \<Rightarrow> (Return False, self3)))"

text \<open>
  Successive loads. The client's replies may change from one call to the next, so each
  load has the client of its moment. Between two loads the enumerator hands out items
  of the buffer and empties it; here the buffer is left to grow, so that after the
  loads it holds, in order, every item that was appended, which is every item the
  enumeration can hand out.
\<close>

fun load_chunks ::
  "(User \<Rightarrow> string) \<Rightarrow> 'e env list \<Rightarrow> ParticipantsIter \<Rightarrow> ParticipantsIter" where
  "load_chunks gdn [] self = self"
| "load_chunks gdn (env # envs) self =
     load_chunks gdn envs (snd (ParticipantsIter_load_next_chunk gdn env self))"

text \<open>
  The invariant of the loads. A dictionary built from a reply is keyed by the id of the
  user it holds. The buffer never holds two users of one id, every id in it is in the
  seen-set, and every user in it passes the local match \<open>fe\<close> that \<^verbatim>\<open>_init\<close> stored.
\<close>

definition keyed :: "(int \<rightharpoonup> User) \<Rightarrow> bool" where
  "keyed users = (\<forall>k u. users k = Some u \<longrightarrow> u_id u = k)"

definition no_repeats :: "(User \<Rightarrow> string) \<Rightarrow> filter_entity_fn \<Rightarrow> ParticipantsIter \<Rightarrow> bool" where
  "no_repeats gdn fe s =
     (filter_entity s = fe \<and> distinct (map u_id (buffer s)) \<and> u_id ` set (buffer s) \<subseteq> seen s
      \<and> (\<forall>u \<in> set (buffer s). apply_filter_entity gdn fe u = Return True))"

section \<open>The admin-log iterator\<close>

subsection \<open>Data\<close>

text \<open>
  The fourteen category flags of \<^verbatim>\<open>iter_admin_log\<close>, each \<^verbatim>\<open>None\<close> by default, and
  the TL type \<^verbatim>\<open>ChannelAdminLogEventsFilter\<close> with the service's own flag names.
\<close>

record category_flags =
  join :: "bool option"
  leave :: "bool option"
  invite :: "bool option"
  restrict :: "bool option"
  unrestrict :: "bool option"
  ban :: "bool option"
  unban :: "bool option"
  promote :: "bool option"
  demote :: "bool option"
  info :: "bool option"
  settings :: "bool option"
  pinned :: "bool option"
  edit :: "bool option"
  delete :: "bool option"

record ChannelAdminLogEventsFilter =
  flt_join :: "bool option"
  flt_leave :: "bool option"
  flt_invite :: "bool option"
  flt_ban :: "bool option"
  flt_unban :: "bool option"
  flt_kick :: "bool option"
  flt_unkick :: "bool option"
  flt_promote :: "bool option"
  flt_demote :: "bool option"
  flt_info :: "bool option"
  flt_settings :: "bool option"
  flt_pinned :: "bool option"
  flt_edit :: "bool option"
  flt_delete :: "bool option"

text \<open>Python's truth value of a flag: \<^verbatim>\<open>None\<close> and \<^verbatim>\<open>False\<close> are falsy.\<close>

definition truthy :: "bool option \<Rightarrow> bool" where
  "truthy b = (b = Some True)"

text \<open>The argument \<^verbatim>\<open>admins\<close>: nothing, one reference, or a list of them.\<close>

datatype 'e admins_arg = NoAdmins | OneAdmin 'e | AdminList "'e list"

record GetAdminLogRequest =
  log_channel :: InputPeer
  log_q :: string
  log_min_id :: int
  log_max_id :: int
  log_limit :: int
  log_events_filter :: "ChannelAdminLogEventsFilter option"
  log_admins :: "InputPeer list option"

text \<open>
  An event of the log. Its action may embed messages (\<open>'m\<close>), which the iterator
  completes with \<^verbatim>\<open>_finish_init\<close>; every other action is opaque here.
\<close>

datatype 'm ChannelAdminLogEventAction =
    ChannelAdminLogEventActionEditMessage 'm 'm
  | ChannelAdminLogEventActionDeleteMessage 'm
  | OtherEventAction nat

record 'm ChannelAdminLogEvent =
  ev_id :: int
  ev_user_id :: int
  ev_action :: "'m ChannelAdminLogEventAction"

text \<open>
  The reply \<^verbatim>\<open>channels.AdminLogResults\<close>, whose users and chats are entities \<open>'x\<close>, and
  the wrapper \<^verbatim>\<open>custom.AdminLogEvent(ev, entities)\<close>.
\<close>

record ('m, 'x) AdminLogResults =
  res_events :: "'m ChannelAdminLogEvent list"
  res_chats :: "'x list"
  res_users :: "'x list"

record ('m, 'x) AdminLogEvent =
  original :: "'m ChannelAdminLogEvent"
  entities :: "int \<rightharpoonup> 'x"

text \<open>
  The collaborators: the client's resolver and its reply to the log request,
  \<^verbatim>\<open>utils.get_peer_id\<close>, \<^verbatim>\<open>utils.is_list_like\<close> (decided by the shape of
  \<open>admins_arg\<close>), \<^verbatim>\<open>Message._finish_init(client, entities, input_chat)\<close>, and the
  truth value Python gives a single reference (\<^verbatim>\<open>0\<close> and \<^verbatim>\<open>''\<close> are falsy).
\<close>

record ('e, 'm, 'x) log_env = "'e client" +
  get_admin_log :: "GetAdminLogRequest \<Rightarrow> error + ('m, 'x) AdminLogResults"
  get_peer_id :: "'x \<Rightarrow> int"
  finish_init :: "(int \<rightharpoonup> 'x) \<Rightarrow> InputPeer \<Rightarrow> 'm \<Rightarrow> 'm"
  ref_truthy :: "'e \<Rightarrow> bool"

record ('m, 'x) AdminLogIter = "(('m, 'x) AdminLogEvent, GetAdminLogRequest) RequestIter" +
  entity :: InputPeer
  request :: GetAdminLogRequest

subsection \<open>Initialisation\<close>

text \<open>
  \<^verbatim>\<open>
  if any((join, leave, invite, restrict, unrestrict, ban, unban,
          promote, demote, info, settings, pinned, edit, delete)):
      events_filter = types.ChannelAdminLogEventsFilter(
          join=join, leave=leave, invite=invite, ban=restrict,
          unban=unrestrict, kick=ban, unkick=unban, promote=promote,
          demote=demote, info=info, settings=settings, pinned=pinned,
          edit=edit, delete=delete
      )
  else:
      events_filter = None
  \<close>
\<close>

definition any_flag :: "category_flags \<Rightarrow> bool" where
  "any_flag fl =
     list_ex truthy
       [join fl, leave fl, invite fl, restrict fl, unrestrict fl, ban fl, unban fl,
        promote fl, demote fl, info fl, settings fl, pinned fl, edit fl, delete fl]"

definition make_events_filter :: "category_flags \<Rightarrow> ChannelAdminLogEventsFilter option" where
  "make_events_filter fl =
     (if any_flag fl then
        Some \<lparr> flt_join = join fl, flt_leave = leave fl, flt_invite = invite fl,
               flt_ban = restrict fl, flt_unban = unrestrict fl, flt_kick = ban fl,
               flt_unkick = unban fl, flt_promote = promote fl, flt_demote = demote fl,
               flt_info = info fl, flt_settings = settings fl, flt_pinned = pinned fl,
               flt_edit = edit fl, flt_delete = delete fl \<rparr>
      else None)"

text \<open>
  \<^verbatim>\<open>
  admin_list = []
  if admins:
      if not utils.is_list_like(admins):
          admins = (admins,)

      for admin in admins:
          admin_list.append(await self.client.get_input_entity(admin))
  \<close>
\<close>

fun resolve_each :: "('e peer_ref \<Rightarrow> error + InputPeer) \<Rightarrow> 'e list \<Rightarrow> error + InputPeer list" where
  "resolve_each g [] = Inr []"
| "resolve_each g (a # as) =
     (case g (Unresolved a) of
        Inl e \<Rightarrow> Inl e
      | Inr p \<Rightarrow> (case resolve_each g as of Inl e \<Rightarrow> Inl e | Inr ps \<Rightarrow> Inr (p # ps)))"

fun resolve_admins ::
  "('e peer_ref \<Rightarrow> error + InputPeer) \<Rightarrow> ('e \<Rightarrow> bool) \<Rightarrow> 'e admins_arg
     \<Rightarrow> error + InputPeer list" where
  "resolve_admins g tr NoAdmins = Inr []"
| "resolve_admins g tr (OneAdmin a) = (if tr a then resolve_each g [a] else Inr [])"
| "resolve_admins g tr (AdminList as) = resolve_each g as"

text \<open>
  \<^verbatim>\<open>_AdminLogIter._init\<close>, which ends with
  \<^verbatim>\<open>
  self.request = functions.channels.GetAdminLogRequest(
      self.entity, q=search or '', min_id=min_id, max_id=max_id,
      limit=0, events_filter=events_filter, admins=admin_list or None
  )
  \<close>
  and returns \<^verbatim>\<open>None\<close>.
\<close>

definition AdminLogIter_init ::
  "('e, 'm, 'x) log_env \<Rightarrow> ('m, 'x) AdminLogIter \<Rightarrow> 'e \<Rightarrow> 'e admins_arg \<Rightarrow> string option
     \<Rightarrow> int \<Rightarrow> int \<Rightarrow> category_flags \<Rightarrow> bool outcome \<times> ('m, 'x) AdminLogIter" where
  "AdminLogIter_init env self ent admins search min_id max_id fl =
     (let events_filter = make_events_filter fl
      in case get_input_entity env (Unresolved ent) of
           Inl e \<Rightarrow> (Raise e, self)
         | Inr p \<Rightarrow>
             let self1 = self\<lparr> entity := p \<rparr>
             in case resolve_admins (get_input_entity env) (ref_truthy env) admins of
                  Inl e \<Rightarrow> (Raise e, self1)
                | Inr admin_list \<Rightarrow>
                    (Return False,
                     self1\<lparr> request :=
                       \<lparr> log_channel = p,
                         log_q = (case search of None \<Rightarrow> [] | Some s \<Rightarrow> s),
                         log_min_id = min_id, log_max_id = max_id, log_limit = 0,
                         log_events_filter = events_filter,
                         log_admins = (if admin_list = [] then None else Some admin_list) \<rparr> \<rparr>))"

subsection \<open>Loading a chunk\<close>

text \<open>\<^verbatim>\<open>min(xs, default=d)\<close>.\<close>

fun min_default :: "int list \<Rightarrow> int \<Rightarrow> int" where
  "min_default [] d = d"
| "min_default (x # xs) d = fold min xs x"

text \<open>\<^verbatim>\<open>{utils.get_peer_id(x): x for x in itertools.chain(r.users, r.chats)}\<close>.\<close>

definition dict_of_entities :: "('x \<Rightarrow> int) \<Rightarrow> 'x list \<Rightarrow> (int \<rightharpoonup> 'x)" where
  "dict_of_entities pid xs = map_of (rev (map (\<lambda>x. (pid x, x)) xs))"

text \<open>
  The body of the loop over the events:
  \<^verbatim>\<open>
  if isinstance(ev.action,
                types.ChannelAdminLogEventActionEditMessage):
      ev.action.prev_message._finish_init(
          self.client, entities, self.entity)

      ev.action.new_message._finish_init(
          self.client, entities, self.entity)

  elif isinstance(ev.action,
                  types.ChannelAdminLogEventActionDeleteMessage):
      ev.action.message._finish_init(
          self.client, entities, self.entity)

  self.buffer.append(custom.AdminLogEvent(ev, entities))
  \<close>
\<close>

fun finish_action ::
  "('m \<Rightarrow> 'm) \<Rightarrow> 'm ChannelAdminLogEventAction \<Rightarrow> 'm ChannelAdminLogEventAction" where
  "finish_action fin (ChannelAdminLogEventActionEditMessage prev new) =
     ChannelAdminLogEventActionEditMessage (fin prev) (fin new)"
| "finish_action fin (ChannelAdminLogEventActionDeleteMessage m) =
     ChannelAdminLogEventActionDeleteMessage (fin m)"
| "finish_action fin (OtherEventAction k) = OtherEventAction k"

definition wrap_event ::
  "('m \<Rightarrow> 'm) \<Rightarrow> (int \<rightharpoonup> 'x) \<Rightarrow> 'm ChannelAdminLogEvent \<Rightarrow> ('m, 'x) AdminLogEvent" where
  "wrap_event fin ents ev =
     \<lparr> original = ev\<lparr> ev_action := finish_action fin (ev_action ev) \<rparr>, entities = ents \<rparr>"

text \<open>
  \<^verbatim>\<open>
  async def _load_next_chunk(self):
      self.request.limit = min(self.left, _MAX_ADMIN_LOG_CHUNK_SIZE)
      r = await self.client(self.request)
      entities = {utils.get_peer_id(x): x
                  for x in itertools.chain(r.users, r.chats)}

      self.request.max_id = min((e.id for e in r.events), default=0)
      for ev in r.events:
          ...

      if len(r.events) < self.request.limit:
          return True
  \<close>
\<close>

definition AdminLogIter_load_next_chunk ::
  "('e, 'm, 'x) log_env \<Rightarrow> ('m, 'x) AdminLogIter \<Rightarrow> bool outcome \<times> ('m, 'x) AdminLogIter" where
  "AdminLogIter_load_next_chunk env self =
     (let req = (request self)\<lparr> log_limit := bound_min (left self) MAX_ADMIN_LOG_CHUNK_SIZE \<rparr>;
          self1 = self\<lparr> request := req, calls := calls self @ [req] \<rparr>
      in case get_admin_log env req of
           Inl e \<Rightarrow> (Raise e, self1)
         | Inr r \<Rightarrow>
             let ents = dict_of_entities (get_peer_id env) (res_users r @ res_chats r);
                 self2 = self1\<lparr> request := req\<lparr> log_max_id := min_default (map ev_id (res_events r)) 0 \<rparr> \<rparr>;
                 self3 = self2\<lparr> buffer := buffer self2 @
                           map (wrap_event (finish_init env ents (entity self2)) ents) (res_events r) \<rparr>
             in (Return (int (length (res_events r)) < log_limit (request self3)), self3))"

section \<open>Example objects\<close>

text \<open>
  Concrete objects on which the properties below are exercised: a display-name function
  that reads the first name, a user without a handle, and an audit-log iterator with a
  client that answers every log request with events of given ids.
\<close>

definition first_name_only :: "User \<Rightarrow> string" where
  "first_name_only u = (case first_name u of Str s \<Rightarrow> s | _ \<Rightarrow> [])"

definition alice :: User where
  "alice = \<lparr> u_id = 7, first_name = Str ''Alice'', last_name = PyNone,
             username = PyNone, participant = None \<rparr>"

definition example_log_iter :: "(nat, int) AdminLogIter" where
  "example_log_iter =
     \<lparr> limit = Bounded 250, left = Bounded 250, buffer = [], total_count = None, calls = [],
       entity = InputPeerChannel 1 2,
       request = \<lparr> log_channel = InputPeerChannel 1 2, log_q = [], log_min_id = 0,
                   log_max_id = 0, log_limit = 0, log_events_filter = None,
                   log_admins = None \<rparr> \<rparr>"

definition example_events :: "int list \<Rightarrow> (nat, int) AdminLogResults" where
  "example_events ids =
     \<lparr> res_events = map (\<lambda>i. \<lparr> ev_id = i, ev_user_id = 1, ev_action = OtherEventAction 0 \<rparr>) ids,
       res_chats = [], res_users = [] \<rparr>"

definition example_log_env :: "int list \<Rightarrow> (nat, nat, int) log_env" where
  "example_log_env ids =
     \<lparr> get_input_entity = (\<lambda>r. Inr (InputPeerChannel 1 2)),
       get_admin_log = (\<lambda>req. Inr (example_events ids)),
       get_peer_id = (\<lambda>x. x),
       finish_init = (\<lambda>ents p m. m),
       ref_truthy = (\<lambda>e. e \<noteq> 0) \<rparr>"

definition only_restrict :: category_flags where
  "only_restrict =
     \<lparr> join = None, leave = None, invite = None, restrict = Some True, unrestrict = None,
       ban = None, unban = None, promote = None, demote = None, info = None,
       settings = None, pinned = None, edit = None, delete = None \<rparr>"

text \<open>
  A channel whose client answers every batch of participant requests with the same
  replies, three users of whom one is in both replies, and an iterator that has not
  been initialised yet.
\<close>

definition example_user :: "int \<Rightarrow> string \<Rightarrow> User" where
  "example_user i name =
     \<lparr> u_id = i, first_name = Str name, last_name = PyNone, username = PyNone,
       participant = None \<rparr>"

definition example_reply :: "User list \<Rightarrow> ChannelParticipants" where
  "example_reply us =
     \<lparr> cp_count = int (length us),
       cp_participants = map (\<lambda>u. \<lparr> user_id = u_id u, rank = 0 \<rparr>) us,
       cp_users = us \<rparr>"

definition example_env :: "ChannelParticipants list \<Rightarrow> nat env" where
  "example_env replies =
     \<lparr> get_input_entity = (\<lambda>r. Inr (InputPeerChannel 1 2)),
       full_channel = (\<lambda>p. Inr (Some 3)),
       full_chat = (\<lambda>i. Inl (RPCError 400)),
       get_entity = (\<lambda>p. Inl (RPCError 400)),
       get_participants = (\<lambda>reqs. Inr replies) \<rparr>"

definition example_iter :: "bound \<Rightarrow> ParticipantsIter" where
  "example_iter b =
     \<lparr> limit = b, left = b, buffer = [], total_count = None, calls = [],
       filter_entity = MatchAll, requests = [], seen = {} \<rparr>"

definition overlapping_replies :: "ChannelParticipants list" where
  "overlapping_replies =
     [example_reply [example_user 1 ''abe'', example_user 2 ''bab''],
      example_reply [example_user 2 ''bab'', example_user 3 ''bo'']]"





section \<open>Properties of the chat-action controller\<close>

lemma progress_value:
  "hasattr_progress (self_action self) \<Longrightarrow> tot \<noteq> 0 \<Longrightarrow>
   get_progress (self_action (snd (progress self current tot)))
     = Some (100 * py_round (of_int current / of_int tot))"
  by (cases "self_action self" rule: get_progress.cases)
     (simp_all add: progress_def hasattr_progress_def Let_def)

text \<open>
  Claim C1. \<^verbatim>\<open>progress(current, total)\<close> is to set the progress field to
  \<^verbatim>\<open>round(100 * current / total)\<close>. The code rounds the quotient first and multiplies
  afterwards: with \<open>current = 1\<close> and \<open>total = 4\<close> on a document upload it stores
  \<open>100 * round(0.25) = 0\<close>, where \<open>round(100 * 1 / 4)\<close> is \<open>25\<close>.
\<close>

theorem progress_rounds_before_scaling:
  "progress (ChatAction_init (0::nat) (Action (SendMessageUploadDocumentAction 1)) 4 True) 1 4
     = (Return (), ChatAction_init 0 (Action (SendMessageUploadDocumentAction 0)) 4 True)
   \<and> py_round (100 * of_int 1 / of_int 4) = 25"
  by code_simp

text \<open>
  Claim C9. \<^verbatim>\<open>action\<close> raises \<^verbatim>\<open>ValueError\<close> at once for a string that is not a key of
  the table, for a class, for an object that is no TL object and for a TL object outside
  the \<^verbatim>\<open>SendMessageAction\<close> family; a string that is a key (after lower-casing) is
  resolved through the table. A controller that \<^verbatim>\<open>action\<close> returns has sent nothing
  and has no task, so no error of the argument can surface once the loop runs.
\<close>

theorem action_rejects_invalid_input:
  "(map_of str_mapping (lower s) = None \<longrightarrow>
      action chat (PyStr s) delay auto_cancel = Inl (ValueError (NoSuchAction s)))
   \<and> action chat PyClass delay auto_cancel = Inl (ValueError MustPassInstance)
   \<and> action chat PyOther delay auto_cancel = Inl (ValueError CannotUseAsAction)
   \<and> (SUBCLASS_OF_ID obj \<noteq> SendMessageAction_ID \<longrightarrow>
        action chat (PyInstance obj) delay auto_cancel = Inl (ValueError CannotUseAsAction))
   \<and> (map_of str_mapping (lower s) = Some a \<longrightarrow>
        action chat (PyStr s) delay auto_cancel =
          (if a = SendMessageCancelAction
           then Inr (Awaitable \<lparr> peer = Unresolved chat,
                                 action_of = Action SendMessageCancelAction \<rparr>)
           else Inr (Controller (ChatAction_init chat (Action a) delay auto_cancel))))
   \<and> (action chat act delay auto_cancel = Inr (Controller c) \<longrightarrow>
        sent c = [] \<and> self_task c = None \<and> \<not> self_running c)"
  by (auto simp: action_def ChatAction_init_def split: sum.splits if_splits)

theorem action_rejects_invalid_input_witness:
  "map_of str_mapping (lower ''typign'') = None
   \<and> action (0::nat) (PyStr ''typign'') 4 True = Inl (ValueError (NoSuchAction ''typign''))
   \<and> SUBCLASS_OF_ID (OtherTLObject 5) \<noteq> SendMessageAction_ID
   \<and> action (0::nat) (PyInstance (OtherTLObject 5)) 4 True = Inl (ValueError CannotUseAsAction)
   \<and> map_of str_mapping (lower ''Record-Voice'') = Some SendMessageRecordAudioAction
   \<and> action (0::nat) (PyStr ''Record-Voice'') 4 True
       = Inr (Controller (ChatAction_init 0 (Action SendMessageRecordAudioAction) 4 True))
   \<and> sent (ChatAction_init (0::nat) (Action SendMessageRecordAudioAction) 4 True) = []"
proof -
  have h1: "map_of str_mapping (lower ''typign'') = None" by code_simp
  have h2: "SUBCLASS_OF_ID (OtherTLObject 5) \<noteq> SendMessageAction_ID" by code_simp
  have h3: "map_of str_mapping (lower ''Record-Voice'') = Some SendMessageRecordAudioAction"
    by code_simp
  have h4: "SendMessageRecordAudioAction \<noteq> SendMessageCancelAction" by simp
  note t1 = action_rejects_invalid_input
    [where s = "''typign''" and chat = "0::nat" and delay = 4 and auto_cancel = True
       and obj = "OtherTLObject 5" and a = SendMessageTypingAction and act = PyClass
       and c = "ChatAction_init 0 (Action SendMessageTypingAction) 4 True"]
  note t2 = action_rejects_invalid_input
    [where s = "''Record-Voice''" and chat = "0::nat" and delay = 4 and auto_cancel = True
       and obj = "OtherTLObject 5" and a = SendMessageRecordAudioAction
       and act = "PyStr ''Record-Voice''"
       and c = "ChatAction_init 0 (Action SendMessageRecordAudioAction) 4 True"]
  show ?thesis using h1 h2 h3 h4 t1 t2 by (simp add: ChatAction_init_def)
qed

lemma aenter_shares_target:
  assumes "aenter g self = (Return (), self')"
  shows "self_request self' = Some \<lparr> peer = self_chat self', action_of = self_action self' \<rparr>"
    and "self_task self' = Some NotStarted"
    and "self_running self'"
  using assms by (auto simp: aenter_def split: sum.splits)

lemma run_task_keeps_target:
  "self_chat (run_task r self) = self_chat self"
  "self_request (run_task r self) = self_request self"
  "self_auto_cancel (run_task r self) = self_auto_cancel self"
proof -
  have "self_chat (run_task r self) = self_chat self
      \<and> self_request (run_task r self) = self_request self
      \<and> self_auto_cancel (run_task r self) = self_auto_cancel self"
  proof (cases "self_task self")
    case None
    then show ?thesis by (simp add: run_task_def)
  next
    case (Some t)
    then show ?thesis
      by (cases r; cases t)
         (auto simp: run_task_def loop_head_def cancelled_handler_def
               split: option.splits prod.splits)
  qed
  then show "self_chat (run_task r self) = self_chat self"
    and "self_request (run_task r self) = self_request self"
    and "self_auto_cancel (run_task r self) = self_auto_cancel self"
    by simp_all
qed





section \<open>Properties of the participants iterator\<close>

lemma filter_entity_raises_iff:
  "apply_filter_entity gdn (MatchSearch search) ent = Raise AttributeError \<longleftrightarrow>
     \<not> str_in search (lower (gdn ent)) \<and> username_or_None ent = None"
  by (simp split: option.splits)

text \<open>
  Claim C2. The local match is to be total, an entity without a handle counting as no
  match on the handle. In the code the handle of such an entity reads as \<^verbatim>\<open>None\<close>, and
  \<^verbatim>\<open>None.lower()\<close> raises: for the search string \<open>bob\<close> and a user named Alice with no
  username the predicate raises \<^verbatim>\<open>AttributeError\<close> instead of returning false.
\<close>

theorem filter_entity_without_handle_raises:
  "apply_filter_entity first_name_only (MatchSearch ''bob'') alice = Raise AttributeError"
  by code_simp

lemma init_channel_target:
  assumes "get_input_entity env (Unresolved chat) = Inr (InputPeerChannel c h)"
  shows "ParticipantsIter_init gdn env self chat flt search aggressive =
           init_channel env
             (self\<lparr> filter_entity :=
                      (if search \<noteq> [] \<and> resolve_filter flt \<noteq> None
                       then MatchSearch (lower search) else MatchAll),
                    requests := [] \<rparr>)
             (InputPeerChannel c h) (resolve_filter flt)
             (if search \<noteq> [] \<and> resolve_filter flt \<noteq> None then lower search else search)
             aggressive"
  using assms by (simp add: ParticipantsIter_init_def Let_def)

text \<open>
  Claim C6. For a channel and a limit that is not positive, \<^verbatim>\<open>_init\<close> asks the client
  for the full channel and for nothing else, appends nothing to the buffer, prepares no
  request and, when that one call succeeds, raises \<^verbatim>\<open>StopAsyncIteration\<close>, the end of
  the sequence; a chunk load on the object it leaves returns at once without a call.
\<close>

theorem nonpositive_limit_yields_nothing:
  assumes "get_input_entity env (Unresolved chat) = Inr (InputPeerChannel c h)"
    and "bound_le (limit self) 0"
  shows "calls (snd (ParticipantsIter_init gdn env self chat flt search aggressive)) =
           calls self @ [GetFullChannelRequest (InputPeerChannel c h)]
       \<and> buffer (snd (ParticipantsIter_init gdn env self chat flt search aggressive)) = buffer self
       \<and> requests (snd (ParticipantsIter_init gdn env self chat flt search aggressive)) = []
       \<and> (full_channel env (InputPeerChannel c h) = Inr cnt \<longrightarrow>
            fst (ParticipantsIter_init gdn env self chat flt search aggressive) =
              Raise StopAsyncIteration)
       \<and> ParticipantsIter_load_next_chunk gdn env'
            (snd (ParticipantsIter_init gdn env self chat flt search aggressive)) =
           (Return True, snd (ParticipantsIter_init gdn env self chat flt search aggressive))"
  using assms(2)
  by (simp add: init_channel_target [OF assms(1)] init_channel_def Let_def
        ParticipantsIter_load_next_chunk_def split: sum.splits)

theorem nonpositive_limit_yields_nothing_witness:
  "get_input_entity (example_env []) (Unresolved 0) = Inr (InputPeerChannel 1 2)
   \<and> bound_le (limit (example_iter (Bounded 0))) 0
   \<and> full_channel (example_env []) (InputPeerChannel 1 2) = Inr (Some 3)
   \<and> calls (snd (ParticipantsIter_init first_name_only (example_env []) (example_iter (Bounded 0))
        0 NoFilter [] True)) = [GetFullChannelRequest (InputPeerChannel 1 2)]
   \<and> buffer (snd (ParticipantsIter_init first_name_only (example_env []) (example_iter (Bounded 0))
        0 NoFilter [] True)) = []
   \<and> fst (ParticipantsIter_init first_name_only (example_env []) (example_iter (Bounded 0))
        0 NoFilter [] True) = Raise StopAsyncIteration"
proof -
  have h1: "get_input_entity (example_env []) (Unresolved 0) = Inr (InputPeerChannel 1 2)"
    by (simp add: example_env_def)
  have h2: "bound_le (limit (example_iter (Bounded 0))) 0"
    by (simp add: example_iter_def)
  have h3: "full_channel (example_env []) (InputPeerChannel 1 2) = Inr (Some 3)"
    by (simp add: example_env_def)
  have h4: "calls (example_iter (Bounded 0)) = []" "buffer (example_iter (Bounded 0)) = []"
    by (simp_all add: example_iter_def)
  show ?thesis
    using h1 h2 h3 h4
      nonpositive_limit_yields_nothing [OF h1 h2, where gdn = first_name_only and flt = NoFilter
        and search = "[]" and aggressive = True and cnt = "Some 3" and env' = "example_env []"]
    by simp
qed

text \<open>
  Claim C8. For a channel, a positive limit and a successful count fetch, \<^verbatim>\<open>_init\<close>
  prepares, when aggressive and given no filter, one request per symbol of the search
  string (per letter of the lowercase alphabet when the string is empty), each a search
  for that symbol with offset 0 and limit 200; otherwise exactly one request, with the
  filter the caller gave (a filter class standing for its instance, with an empty query
  where the class takes one) or else a search for the search string.
\<close>

theorem init_builds_descriptors:
  assumes "get_input_entity env (Unresolved chat) = Inr (InputPeerChannel c h)"
    and "case limit self of Bounded n \<Rightarrow> 0 < n | Unbounded \<Rightarrow> True"
    and "full_channel env (InputPeerChannel c h) = Inr cnt"
  shows "fst (ParticipantsIter_init gdn env self chat flt search aggressive) = Return False
       \<and> requests (snd (ParticipantsIter_init gdn env self chat flt search aggressive)) =
           (case flt of
              NoFilter \<Rightarrow>
                if aggressive then
                  map (\<lambda>x. \<lparr> req_channel = InputPeerChannel c h,
                              req_filter = ChannelParticipantsSearch [x],
                              req_offset = 0, req_limit = 200, req_hash = 0 \<rparr>)
                    (if search = [] then ''abcdefghijklmnopqrstuvwxyz'' else search)
                else
                  [\<lparr> req_channel = InputPeerChannel c h,
                     req_filter = ChannelParticipantsSearch search,
                     req_offset = 0, req_limit = 200, req_hash = 0 \<rparr>]
            | FilterInstance f \<Rightarrow>
                [\<lparr> req_channel = InputPeerChannel c h, req_filter = f,
                   req_offset = 0, req_limit = 200, req_hash = 0 \<rparr>]
            | FilterClass k \<Rightarrow>
                [\<lparr> req_channel = InputPeerChannel c h,
                   req_filter =
                     (case k of
                        RecentClass \<Rightarrow> ChannelParticipantsRecent
                      | AdminsClass \<Rightarrow> ChannelParticipantsAdmins
                      | KickedClass \<Rightarrow> ChannelParticipantsKicked []
                      | BotsClass \<Rightarrow> ChannelParticipantsBots
                      | BannedClass \<Rightarrow> ChannelParticipantsBanned []
                      | SearchClass \<Rightarrow> ChannelParticipantsSearch []
                      | ContactsClass \<Rightarrow> ChannelParticipantsContacts []),
                   req_offset = 0, req_limit = 200, req_hash = 0 \<rparr>])
       \<and> length (requests (snd (ParticipantsIter_init gdn env self chat flt search aggressive))) =
           (case flt of
              NoFilter \<Rightarrow> if aggressive then (if search = [] then 26 else length search) else 1
            | FilterInstance f \<Rightarrow> 1
            | FilterClass k \<Rightarrow> 1)"
proof -
  have pos: "\<not> bound_le (limit self) 0"
    using assms(2) by (cases "limit self") simp_all
  show ?thesis
  proof (cases flt)
    case NoFilter
    then show ?thesis
      using pos assms(3)
      by (auto simp: init_channel_target [OF assms(1)] init_channel_def Let_def new_request_def
            MAX_PARTICIPANTS_CHUNK_SIZE_def ascii_lowercase_def)
  next
    case (FilterInstance f)
    then show ?thesis
      using pos assms(3)
      by (auto simp: init_channel_target [OF assms(1)] init_channel_def Let_def new_request_def
            MAX_PARTICIPANTS_CHUNK_SIZE_def)
  next
    case (FilterClass k)
    then show ?thesis
      using pos assms(3)
      by (cases k)
         (auto simp: init_channel_target [OF assms(1)] init_channel_def Let_def new_request_def
            MAX_PARTICIPANTS_CHUNK_SIZE_def)
  qed
qed

theorem init_builds_descriptors_witness:
  "requests (snd (ParticipantsIter_init first_name_only (example_env []) (example_iter (Bounded 5))
        0 NoFilter ''ab'' True)) =
       [\<lparr> req_channel = InputPeerChannel 1 2, req_filter = ChannelParticipantsSearch ''a'',
          req_offset = 0, req_limit = 200, req_hash = 0 \<rparr>,
        \<lparr> req_channel = InputPeerChannel 1 2, req_filter = ChannelParticipantsSearch ''b'',
          req_offset = 0, req_limit = 200, req_hash = 0 \<rparr>]
   \<and> length (requests (snd (ParticipantsIter_init first_name_only (example_env [])
        (example_iter (Bounded 5)) 0 NoFilter [] True))) = 26
   \<and> requests (snd (ParticipantsIter_init first_name_only (example_env []) (example_iter (Bounded 5))
        0 NoFilter ''ab'' False)) =
       [\<lparr> req_channel = InputPeerChannel 1 2, req_filter = ChannelParticipantsSearch ''ab'',
          req_offset = 0, req_limit = 200, req_hash = 0 \<rparr>]
   \<and> requests (snd (ParticipantsIter_init first_name_only (example_env []) (example_iter (Bounded 5))
        0 (FilterInstance ChannelParticipantsAdmins) ''ab'' True)) =
       [\<lparr> req_channel = InputPeerChannel 1 2, req_filter = ChannelParticipantsAdmins,
          req_offset = 0, req_limit = 200, req_hash = 0 \<rparr>]
   \<and> requests (snd (ParticipantsIter_init first_name_only (example_env []) (example_iter Unbounded)
        0 (FilterClass BannedClass) [] True)) =
       [\<lparr> req_channel = InputPeerChannel 1 2, req_filter = ChannelParticipantsBanned [],
          req_offset = 0, req_limit = 200, req_hash = 0 \<rparr>]"
proof -
  have h1: "get_input_entity (example_env []) (Unresolved 0) = Inr (InputPeerChannel 1 2)"
    by (simp add: example_env_def)
  have h2: "case limit (example_iter (Bounded 5)) of Bounded n \<Rightarrow> 0 < n | Unbounded \<Rightarrow> True"
    by (simp add: example_iter_def)
  have h2': "case limit (example_iter Unbounded) of Bounded n \<Rightarrow> 0 < n | Unbounded \<Rightarrow> True"
    by (simp add: example_iter_def)
  have h3: "full_channel (example_env []) (InputPeerChannel 1 2) = Inr (Some 3)"
    by (simp add: example_env_def)
  note t = init_builds_descriptors [OF h1 h2 h3, where gdn = first_name_only]
  note t' = init_builds_descriptors [OF h1 h2' h3, where gdn = first_name_only]
  show ?thesis
    using t [where flt = NoFilter and search = "''ab''" and aggressive = True]
      t [where flt = NoFilter and search = "[]" and aggressive = True]
      t [where flt = NoFilter and search = "''ab''" and aggressive = False]
      t [where flt = "FilterInstance ChannelParticipantsAdmins" and search = "''ab''"
           and aggressive = True]
      t' [where flt = "FilterClass BannedClass" and search = "[]" and aggressive = True]
    by simp
qed

lemma keyed_dict_of_users: "keyed (dict_of_users us)"
  unfolding keyed_def dict_of_users_def
  by (auto dest!: map_of_SomeD)

lemma apply_filter_entity_participant:
  assumes "\<forall>u p. gdn (u\<lparr> participant := p \<rparr>) = gdn u"
  shows "apply_filter_entity gdn fe (u\<lparr> participant := p \<rparr>) = apply_filter_entity gdn fe u"
  using assms by (cases fe) simp_all

lemma participants_loop_no_repeats:
  assumes gdn: "\<forall>u p. gdn (u\<lparr> participant := p \<rparr>) = gdn u"
  shows "keyed users \<Longrightarrow> no_repeats gdn fe s \<Longrightarrow>
         no_repeats gdn fe (snd (participants_loop gdn users ps s))"
proof (induction ps arbitrary: users s)
  case Nil
  then show ?case by simp
next
  case (Cons p ps)
  show ?case
  proof (cases "users (user_id p)")
    case None
    then show ?thesis using Cons.prems by simp
  next
    case (Some user)
    then have uid: "u_id user = user_id p" using Cons.prems(1) by (simp add: keyed_def)
    have fe: "filter_entity s = fe" using Cons.prems(2) by (simp add: no_repeats_def)
    show ?thesis
    proof (cases "apply_filter_entity gdn fe user")
      case (Raise e)
      then show ?thesis using Some fe Cons.prems by simp
    next
      case (Return ok)
      show ?thesis
      proof (cases "\<not> ok \<or> u_id user \<in> seen s")
        case True
        then show ?thesis using Some Return fe Cons.IH [OF Cons.prems] by auto
      next
        case False
        let ?user = "user\<lparr> participant := Some p \<rparr>"
        let ?s = "s\<lparr> seen := insert (user_id p) (seen s), buffer := buffer s @ [?user] \<rparr>"
        have k: "keyed (users(user_id p \<mapsto> ?user))"
          using Cons.prems(1) uid by (simp add: keyed_def)
        have ok: "apply_filter_entity gdn fe ?user = Return True"
          using False Return apply_filter_entity_participant [OF gdn] by simp
        have n: "no_repeats gdn fe ?s"
          using Cons.prems(2) False uid ok by (auto simp: no_repeats_def)
        have eq: "participants_loop gdn users (p # ps) s =
                participants_loop gdn (users(user_id p \<mapsto> ?user)) ps ?s"
          using Some Return fe False by (simp add: Let_def)
        show ?thesis unfolding eq by (rule Cons.IH [OF k n])
      qed
    qed
  qed
qed

lemma no_repeats_requests:
  "no_repeats gdn fe (s\<lparr> requests := rs \<rparr>) = no_repeats gdn fe s"
  by (simp add: no_repeats_def)

lemma no_repeats_calls:
  "no_repeats gdn fe (s\<lparr> calls := cs \<rparr>) = no_repeats gdn fe s"
  by (simp add: no_repeats_def)

lemma results_loop_no_repeats:
  assumes gdn: "\<forall>u p. gdn (u\<lparr> participant := p \<rparr>) = gdn u"
  shows "no_repeats gdn fe s \<Longrightarrow> no_repeats gdn fe (snd (results_loop gdn results is s))"
proof (induction "is" arbitrary: s)
  case Nil
  then show ?case by simp
next
  case (Cons i "is")
  show ?case
  proof (cases "length results \<le> i \<or> length (requests s) \<le> i")
    case True
    then show ?thesis using Cons.prems by simp
  next
    case False
    note inb = False
    show ?thesis
    proof (cases "cp_users (results ! i) = []")
      case True
      then show ?thesis
        using inb Cons.IH [of "s\<lparr> requests := take i (requests s) @ drop (Suc i) (requests s) \<rparr>"]
          Cons.prems
        by (simp add: no_repeats_requests Let_def)
    next
      case False
      let ?r = "requests s ! i"
      let ?s1 = "s\<lparr> requests := (requests s)
                   [i := ?r\<lparr> req_offset :=
                      req_offset ?r + int (length (cp_participants (results ! i))) \<rparr>] \<rparr>"
      let ?res = "participants_loop gdn (dict_of_users (cp_users (results ! i)))
                    (cp_participants (results ! i)) ?s1"
      have n1: "no_repeats gdn fe (snd ?res)"
        using participants_loop_no_repeats [OF gdn keyed_dict_of_users, of fe ?s1] Cons.prems
        by (simp add: no_repeats_requests)
      obtain out s' where res: "?res = (out, s')" by (cases ?res)
      have n': "no_repeats gdn fe s'" using n1 res by simp
      show ?thesis
      proof (cases out)
        case (Raise e)
        have eq: "results_loop gdn results (i # is) s = (Raise e, s')"
          using inb False res Raise by (simp add: Let_def)
        show ?thesis unfolding eq using n' by simp
      next
        case (Return u)
        have eq: "results_loop gdn results (i # is) s = results_loop gdn results is s'"
          using inb False res Return by (simp add: Let_def)
        show ?thesis unfolding eq by (rule Cons.IH [OF n'])
      qed
    qed
  qed
qed

lemma load_next_chunk_no_repeats:
  assumes gdn: "\<forall>u p. gdn (u\<lparr> participant := p \<rparr>) = gdn u"
    and n: "no_repeats gdn fe s"
  shows "no_repeats gdn fe (snd (ParticipantsIter_load_next_chunk gdn env s))"
proof (cases "requests s")
  case Nil
  then show ?thesis using n by (simp add: ParticipantsIter_load_next_chunk_def)
next
  case (Cons r0 rest)
  let ?s1 = "s\<lparr> requests := r0\<lparr> req_limit := bound_min (bound_sub (limit s) (req_offset r0))
                                            MAX_PARTICIPANTS_CHUNK_SIZE \<rparr> # rest \<rparr>"
  let ?s2 = "?s1\<lparr> calls := calls ?s1 @ [GetParticipantsRequests (requests ?s1)] \<rparr>"
  have n2: "no_repeats gdn fe ?s2" and n1: "no_repeats gdn fe ?s1"
    using n by (simp_all add: no_repeats_def)
  show ?thesis
  proof (cases "int_gt_bound (req_offset r0) (limit s)")
    case True
    then show ?thesis using Cons n1 by (simp add: ParticipantsIter_load_next_chunk_def Let_def)
  next
    case False
    show ?thesis
    proof (cases "get_participants env (requests ?s1)")
      case (Inl e)
      then show ?thesis
        using Cons False n2 by (simp add: ParticipantsIter_load_next_chunk_def Let_def)
    next
      case (Inr results)
      obtain out s3 where
        res: "results_loop gdn results (rev [0..<length (requests ?s2)]) ?s2 = (out, s3)"
        by (cases "results_loop gdn results (rev [0..<length (requests ?s2)]) ?s2")
      have n3: "no_repeats gdn fe s3"
        using results_loop_no_repeats [OF gdn n2, of results "rev [0..<length (requests ?s2)]"]
        unfolding res by simp
      have "snd (ParticipantsIter_load_next_chunk gdn env s) = s3"
        using Cons False Inr res
        by (simp add: ParticipantsIter_load_next_chunk_def Let_def split: outcome.splits
              del: results_loop.simps upt_Suc)
      then show ?thesis using n3 by simp
    qed
  qed
qed

lemma load_chunks_no_repeats:
  assumes gdn: "\<forall>u p. gdn (u\<lparr> participant := p \<rparr>) = gdn u"
  shows "no_repeats gdn fe s \<Longrightarrow> no_repeats gdn fe (load_chunks gdn envs s)"
  by (induction envs arbitrary: s) (simp_all add: load_next_chunk_no_repeats [OF gdn])

lemma init_channel_buffer:
  "buffer (snd (init_channel env s p flt search aggressive)) = buffer s"
  by (simp add: init_channel_def Let_def split: sum.splits)

lemma init_channel_filter_entity:
  "filter_entity (snd (init_channel env s p flt search aggressive)) = filter_entity s"
  by (simp add: init_channel_def Let_def split: sum.splits)

text \<open>
  Claim C7. For a channel, whatever the client answers over any number of chunk loads,
  no two users appended to the buffer have the same id, and every user appended passes
  the local match that \<^verbatim>\<open>_init\<close> stored (which, when the enumeration is aggressive and
  has no filter, is the match that accepts everyone). The display name is taken not to
  depend on the attribute \<^verbatim>\<open>participant\<close> that the iterator attaches.
\<close>

theorem aggressive_enumeration_has_no_duplicates:
  assumes "get_input_entity env (Unresolved chat) = Inr (InputPeerChannel c h)"
    and "buffer self = []"
    and "\<forall>u p. gdn (u\<lparr> participant := p \<rparr>) = gdn u"
  shows "distinct (map u_id (buffer (load_chunks gdn envs
           (snd (ParticipantsIter_init gdn env self chat flt search aggressive)))))
       \<and> (\<forall>u \<in> set (buffer (load_chunks gdn envs
             (snd (ParticipantsIter_init gdn env self chat flt search aggressive)))).
            apply_filter_entity gdn
              (filter_entity (snd (ParticipantsIter_init gdn env self chat flt search aggressive)))
              u = Return True)
       \<and> (aggressive \<and> resolve_filter flt = None \<longrightarrow>
            filter_entity (snd (ParticipantsIter_init gdn env self chat flt search aggressive))
              = MatchAll)"
proof -
  let ?s = "snd (ParticipantsIter_init gdn env self chat flt search aggressive)"
  have b: "buffer ?s = []"
    using assms(2) by (simp add: init_channel_target [OF assms(1)] init_channel_buffer)
  have "no_repeats gdn (filter_entity ?s) ?s"
    using b by (simp add: no_repeats_def)
  then have "no_repeats gdn (filter_entity ?s) (load_chunks gdn envs ?s)"
    by (rule load_chunks_no_repeats [OF assms(3)])
  moreover have "aggressive \<and> resolve_filter flt = None \<longrightarrow> filter_entity ?s = MatchAll"
    by (simp add: init_channel_target [OF assms(1)] init_channel_filter_entity)
  ultimately show ?thesis by (simp add: no_repeats_def)
qed

theorem aggressive_enumeration_has_no_duplicates_witness:
  "get_input_entity (example_env []) (Unresolved 0) = Inr (InputPeerChannel 1 2)
   \<and> buffer (example_iter (Bounded 5)) = []
   \<and> map u_id (buffer (load_chunks first_name_only
        [example_env overlapping_replies, example_env overlapping_replies]
        (snd (ParticipantsIter_init first_name_only (example_env []) (example_iter (Bounded 5))
           0 NoFilter ''ab'' True)))) = [2, 3, 1]
   \<and> distinct (map u_id (buffer (load_chunks first_name_only
        [example_env overlapping_replies, example_env overlapping_replies]
        (snd (ParticipantsIter_init first_name_only (example_env []) (example_iter (Bounded 5))
           0 NoFilter ''ab'' True)))))"
proof -
  have h1: "get_input_entity (example_env []) (Unresolved 0) = Inr (InputPeerChannel 1 2)"
    by (simp add: example_env_def)
  have h2: "buffer (example_iter (Bounded 5)) = []"
    by (simp add: example_iter_def)
  have h3: "\<forall>u p. first_name_only (u\<lparr> participant := p \<rparr>) = first_name_only u"
    by (simp add: first_name_only_def)
  have v: "map u_id (buffer (load_chunks first_name_only
        [example_env overlapping_replies, example_env overlapping_replies]
        (snd (ParticipantsIter_init first_name_only (example_env []) (example_iter (Bounded 5))
           0 NoFilter ''ab'' True)))) = [2, 3, 1]"
    by code_simp
  show ?thesis
    using h1 h2 v
      aggressive_enumeration_has_no_duplicates [OF h1 h2 h3,
        where envs = "[example_env overlapping_replies, example_env overlapping_replies]"
          and flt = NoFilter and search = "''ab''" and aggressive = True]
    by simp
qed

section \<open>Properties of the admin-log iterator\<close>

lemma min_default_Min:
  "min_default xs d = (if xs = [] then d else Min (set xs))"
proof (cases xs)
  case Nil
  then show ?thesis by simp
next
  case (Cons a as)
  then show ?thesis using Min.set_eq_fold [of a as] by simp
qed

lemma load_calls:
  "calls (snd (AdminLogIter_load_next_chunk env self)) =
     calls self @ [(request self)\<lparr> log_limit := bound_min (left self) MAX_ADMIN_LOG_CHUNK_SIZE \<rparr>]"
  by (simp add: AdminLogIter_load_next_chunk_def Let_def split: sum.splits)

lemma load_ok:
  assumes "get_admin_log env
             ((request self)\<lparr> log_limit := bound_min (left self) MAX_ADMIN_LOG_CHUNK_SIZE \<rparr>) = Inr r"
  shows "fst (AdminLogIter_load_next_chunk env self) =
           Return (int (length (res_events r)) < bound_min (left self) MAX_ADMIN_LOG_CHUNK_SIZE)"
    and "request (snd (AdminLogIter_load_next_chunk env self)) =
           (request self)\<lparr> log_limit := bound_min (left self) MAX_ADMIN_LOG_CHUNK_SIZE,
                            log_max_id := min_default (map ev_id (res_events r)) 0 \<rparr>"
  using assms by (simp_all add: AdminLogIter_load_next_chunk_def Let_def)

text \<open>
  Claim C3. When at least one category flag is set, the filter of the request that
  \<^verbatim>\<open>_init\<close> builds carries \<^verbatim>\<open>restrict\<close> as the service's \<^verbatim>\<open>ban\<close>, \<^verbatim>\<open>ban\<close> as its
  \<^verbatim>\<open>kick\<close>, \<^verbatim>\<open>unrestrict\<close> as its \<^verbatim>\<open>unban\<close> and \<^verbatim>\<open>unban\<close> as its \<^verbatim>\<open>unkick\<close>; every
  other flag keeps its name, and each field holds exactly the value of its flag, so a
  flag left unset is unset in the filter.
\<close>

theorem events_filter_mapping:
  assumes "any_flag fl"
    and "AdminLogIter_init env self chat admins search min_id max_id fl = (Return b, self')"
  shows "log_events_filter (request self') =
           Some \<lparr> flt_join = join fl, flt_leave = leave fl, flt_invite = invite fl,
                  flt_ban = restrict fl, flt_unban = unrestrict fl, flt_kick = ban fl,
                  flt_unkick = unban fl, flt_promote = promote fl, flt_demote = demote fl,
                  flt_info = info fl, flt_settings = settings fl, flt_pinned = pinned fl,
                  flt_edit = edit fl, flt_delete = delete fl \<rparr>"
  using assms
  by (auto simp: AdminLogIter_init_def make_events_filter_def Let_def split: sum.splits)

theorem events_filter_mapping_witness:
  "any_flag only_restrict
   \<and> fst (AdminLogIter_init (example_log_env []) example_log_iter 0 NoAdmins None 0 0 only_restrict)
       = Return False
   \<and> log_events_filter (request (snd
        (AdminLogIter_init (example_log_env []) example_log_iter 0 NoAdmins None 0 0 only_restrict)))
       = Some \<lparr> flt_join = None, flt_leave = None, flt_invite = None,
                flt_ban = Some True, flt_unban = None, flt_kick = None,
                flt_unkick = None, flt_promote = None, flt_demote = None,
                flt_info = None, flt_settings = None, flt_pinned = None,
                flt_edit = None, flt_delete = None \<rparr>"
proof -
  have h1: "any_flag only_restrict"
    by (simp add: any_flag_def only_restrict_def truthy_def)
  have h2: "fst (AdminLogIter_init (example_log_env []) example_log_iter 0 NoAdmins None 0 0
              only_restrict) = Return False"
    by (simp add: AdminLogIter_init_def example_log_env_def Let_def)
  have h3: "AdminLogIter_init (example_log_env []) example_log_iter 0 NoAdmins None 0 0 only_restrict
              = (Return False, snd (AdminLogIter_init (example_log_env []) example_log_iter 0
                   NoAdmins None 0 0 only_restrict))"
    using h2 by (simp add: prod_eq_iff)
  show ?thesis
    using h1 h2 events_filter_mapping [OF h1 h3] by (simp add: only_restrict_def)
qed

text \<open>
  Claim C4. After a chunk load whose call succeeded, \<^verbatim>\<open>max_id\<close> of the request is the
  smallest event id of the batch, or 0 for an empty batch; the next load sends that value
  as its \<^verbatim>\<open>max_id\<close>; and when the service answers it with events whose ids do not
  exceed the \<^verbatim>\<open>max_id\<close> asked for, no event of the later batch has a larger id than
  any event of the earlier one.
\<close>

theorem admin_log_cursor_is_batch_minimum:
  assumes r1: "get_admin_log env1
                 ((request self)\<lparr> log_limit := bound_min (left self) 100 \<rparr>) = Inr r1"
    and s2: "request s2 = request (snd (AdminLogIter_load_next_chunk env1 self))"
    and r2: "get_admin_log env2
                 ((request s2)\<lparr> log_limit := bound_min (left s2) 100 \<rparr>) = Inr r2"
    and honoured: "\<forall>e \<in> set (res_events r2). ev_id e \<le> log_max_id (request s2)"
  shows "log_max_id (request (snd (AdminLogIter_load_next_chunk env1 self))) =
           (if res_events r1 = [] then 0 else Min (ev_id ` set (res_events r1)))
         \<and> log_max_id (last (calls (snd (AdminLogIter_load_next_chunk env2 s2)))) =
             (if res_events r1 = [] then 0 else Min (ev_id ` set (res_events r1)))
         \<and> (\<forall>e1 \<in> set (res_events r1). \<forall>e2 \<in> set (res_events r2). ev_id e2 \<le> ev_id e1)"
proof -
  let ?m = "if res_events r1 = [] then 0 else Min (ev_id ` set (res_events r1))"
  have a: "log_max_id (request (snd (AdminLogIter_load_next_chunk env1 self))) = ?m"
    using load_ok(2) [of env1 self r1] r1
    by (simp add: MAX_ADMIN_LOG_CHUNK_SIZE_def min_default_Min)
  have b: "log_max_id (last (calls (snd (AdminLogIter_load_next_chunk env2 s2)))) = ?m"
    using a s2 by (simp add: load_calls)
  have c: "ev_id e2 \<le> ev_id e1"
    if "e1 \<in> set (res_events r1)" "e2 \<in> set (res_events r2)" for e1 e2
  proof -
    from that(1) have ne: "res_events r1 \<noteq> []" by auto
    have "ev_id e2 \<le> log_max_id (request s2)" using honoured that(2) by blast
    also have "\<dots> = Min (ev_id ` set (res_events r1))" using a s2 ne by simp
    also have "\<dots> \<le> ev_id e1" using that(1) by simp
    finally show ?thesis .
  qed
  show ?thesis using a b c by blast
qed

theorem admin_log_cursor_is_batch_minimum_witness:
  "log_max_id (request (snd (AdminLogIter_load_next_chunk (example_log_env [9, 7, 8])
      example_log_iter))) = 7
   \<and> log_max_id (last (calls (snd (AdminLogIter_load_next_chunk (example_log_env [5, 6])
        (snd (AdminLogIter_load_next_chunk (example_log_env [9, 7, 8]) example_log_iter)))))) = 7
   \<and> list_all (\<lambda>e1. list_all (\<lambda>e2. ev_id e2 \<le> ev_id e1) (res_events (example_events [5, 6])))
        (res_events (example_events [9, 7, 8]))"
proof -
  let ?s2 = "snd (AdminLogIter_load_next_chunk (example_log_env [9, 7, 8]) example_log_iter)"
  have h1: "get_admin_log (example_log_env [9, 7, 8])
              ((request example_log_iter)\<lparr> log_limit := bound_min (left example_log_iter) 100 \<rparr>)
            = Inr (example_events [9, 7, 8])"
    by (simp add: example_log_env_def)
  have h2: "request ?s2 = request ?s2" by simp
  have h3: "get_admin_log (example_log_env [5, 6])
              ((request ?s2)\<lparr> log_limit := bound_min (left ?s2) 100 \<rparr>)
            = Inr (example_events [5, 6])"
    by (simp add: example_log_env_def)
  have m: "log_max_id (request ?s2) = 7"
    by (simp add: AdminLogIter_load_next_chunk_def Let_def example_log_env_def
          example_events_def example_log_iter_def)
  have h4: "\<forall>e \<in> set (res_events (example_events [5, 6])). ev_id e \<le> log_max_id (request ?s2)"
    unfolding m by (simp add: example_events_def)
  show ?thesis
    using admin_log_cursor_is_batch_minimum [OF h1 h2 h3 h4]
    by (simp add: example_events_def)
qed

text \<open>
  Claim C5. A chunk load sends the request with its limit set to the smaller of
  \<^verbatim>\<open>self.left\<close> and 100 (to 100 when nothing bounds what is left), and when the call
  succeeds it returns true (no further chunk) exactly when the batch has fewer events
  than that limit.
\<close>

theorem admin_log_limit_and_exhaustion:
  "calls (snd (AdminLogIter_load_next_chunk env self)) =
     calls self @
       [(request self)\<lparr> log_limit := (case left self of Bounded n \<Rightarrow> min n 100 | Unbounded \<Rightarrow> 100) \<rparr>]
   \<and> (get_admin_log env
         ((request self)\<lparr> log_limit := (case left self of Bounded n \<Rightarrow> min n 100 | Unbounded \<Rightarrow> 100) \<rparr>)
         = Inr r \<longrightarrow>
        fst (AdminLogIter_load_next_chunk env self) =
          Return (int (length (res_events r))
                    < (case left self of Bounded n \<Rightarrow> min n 100 | Unbounded \<Rightarrow> 100)))"
proof -
  have m: "bound_min (left self) MAX_ADMIN_LOG_CHUNK_SIZE =
             (case left self of Bounded n \<Rightarrow> min n 100 | Unbounded \<Rightarrow> 100)"
    by (cases "left self") (simp_all add: MAX_ADMIN_LOG_CHUNK_SIZE_def)
  show ?thesis
    using load_calls [of env self] load_ok(1) [of env self r]
    unfolding m by simp
qed

theorem admin_log_limit_and_exhaustion_witness:
  "log_limit (last (calls (snd (AdminLogIter_load_next_chunk (example_log_env [9, 7, 8])
      (example_log_iter\<lparr> left := Bounded 30 \<rparr>))))) = 30
   \<and> fst (AdminLogIter_load_next_chunk (example_log_env [9, 7, 8])
          (example_log_iter\<lparr> left := Bounded 30 \<rparr>)) = Return True
   \<and> log_limit (last (calls (snd (AdminLogIter_load_next_chunk (example_log_env [9, 7, 8])
        (example_log_iter\<lparr> left := Bounded 3 \<rparr>))))) = 3
   \<and> fst (AdminLogIter_load_next_chunk (example_log_env [9, 7, 8])
          (example_log_iter\<lparr> left := Bounded 3 \<rparr>)) = Return False
   \<and> log_limit (last (calls (snd (AdminLogIter_load_next_chunk (example_log_env [9, 7, 8])
        (example_log_iter\<lparr> left := Bounded 250 \<rparr>))))) = 100
   \<and> log_limit (last (calls (snd (AdminLogIter_load_next_chunk (example_log_env [9, 7, 8])
        (example_log_iter\<lparr> left := Unbounded \<rparr>))))) = 100"
proof -
  have h: "get_admin_log (example_log_env [9, 7, 8]) q = Inr (example_events [9, 7, 8])" for q
    by (simp add: example_log_env_def)
  note t = admin_log_limit_and_exhaustion
    [where env = "example_log_env [9, 7, 8]" and r = "example_events [9, 7, 8]"]
  show ?thesis
    using h t [where self = "example_log_iter\<lparr> left := Bounded 30 \<rparr>"]
      t [where self = "example_log_iter\<lparr> left := Bounded 3 \<rparr>"]
      t [where self = "example_log_iter\<lparr> left := Bounded 250 \<rparr>"]
      t [where self = "example_log_iter\<lparr> left := Unbounded \<rparr>"]
    by (simp add: example_events_def)
qed

end
